theory Spec2Isabelle
  imports Main
begin

section \<open>JavaScript values, errors and conversions\<close>

text \<open>
  The values that cross the interfaces of \<^verbatim>\<open>Haxroomie.js\<close> and
  \<^verbatim>\<open>RoomController.js\<close>: primitives and plain data objects (own properties in
  insertion order, prototype \<^verbatim>\<open>Object.prototype\<close>). Numbers are the integers that
  JavaScript prints in plain decimal notation; functions and arrays are not values of
  this type.
\<close>

datatype jsval = Undefined | Null | JBool bool | JNum int | JStr string
  | JObj "(string \<times> jsval) list"

text \<open>An exception: the constructor that built it and its message.\<close>

datatype js_error = Error string | TypeError string

text \<open>\<^verbatim>\<open>if (v)\<close>, \<^verbatim>\<open>!v\<close>, \<^verbatim>\<open>v || d\<close>: the truthiness of a value.\<close>

fun truthy :: "jsval \<Rightarrow> bool" where
  "truthy Undefined = False"
| "truthy Null = False"
| "truthy (JBool b) = b"
| "truthy (JNum n) = (n \<noteq> 0)"
| "truthy (JStr s) = (s \<noteq> [])"
| "truthy (JObj ps) = True"

definition or_else :: "jsval \<Rightarrow> jsval \<Rightarrow> jsval" where
  "or_else v d = (if truthy v then v else d)"

text \<open>
  \<^verbatim>\<open>v.k\<close> for the property names this program reads (\<^verbatim>\<open>port\<close>, \<^verbatim>\<open>viewport\<close>,
  \<^verbatim>\<open>error\<close>, \<^verbatim>\<open>payload\<close>, \<^verbatim>\<open>result\<close>, ...): none of them is defined by a built-in
  prototype, so the read gives the own property or \<^verbatim>\<open>undefined\<close>, and throws on
  \<^verbatim>\<open>undefined\<close> and \<^verbatim>\<open>null\<close>.
\<close>

fun get :: "jsval \<Rightarrow> string \<Rightarrow> js_error + jsval" where
  "get Undefined k = Inl (TypeError (''Cannot read property '' @ k @ '' of undefined''))"
| "get Null k = Inl (TypeError (''Cannot read property '' @ k @ '' of null''))"
| "get (JObj ps) k = Inr (case map_of ps k of None \<Rightarrow> Undefined | Some v \<Rightarrow> v)"
| "get v k = Inr Undefined"

text \<open>
  \<^verbatim>\<open>v.hasOwnProperty(k)\<close>: the inherited method, unless the object carries an own
  property of that name, which in this value type is never callable.
\<close>

fun hasOwnProperty :: "jsval \<Rightarrow> string \<Rightarrow> js_error + bool" where
  "hasOwnProperty Undefined k = Inl (TypeError ''Cannot read property hasOwnProperty of undefined'')"
| "hasOwnProperty Null k = Inl (TypeError ''Cannot read property hasOwnProperty of null'')"
| "hasOwnProperty (JObj ps) k =
     (if map_of ps ''hasOwnProperty'' \<noteq> None then Inl (TypeError ''opt.hasOwnProperty is not a function'')
      else Inr (map_of ps k \<noteq> None))"
| "hasOwnProperty v k = Inr False"

fun digits :: "nat \<Rightarrow> string" where
  "digits n = (if n < 10 then [''0123456789'' ! n]
               else digits (n div 10) @ [''0123456789'' ! (n mod 10)])"

declare digits.simps [simp del]

text \<open>
  ToString, as template literals, property keys and \<^verbatim>\<open>new Error(v)\<close> apply it. An object
  with an own (not callable) \<^verbatim>\<open>toString\<close> cannot be converted.
\<close>

fun to_string :: "jsval \<Rightarrow> js_error + string" where
  "to_string Undefined = Inr ''undefined''"
| "to_string Null = Inr ''null''"
| "to_string (JBool b) = Inr (if b then ''true'' else ''false'')"
| "to_string (JNum n) = Inr (if n < 0 then ''-'' @ digits (nat (- n)) else digits (nat n))"
| "to_string (JStr s) = Inr s"
| "to_string (JObj ps) =
     (if map_of ps ''toString'' \<noteq> None
      then Inl (TypeError ''Cannot convert object to primitive value'')
      else Inr ''[object Object]'')"

text \<open>\<^verbatim>\<open>new Error(v)\<close>: the message is ToString of \<^verbatim>\<open>v\<close>, and empty for \<^verbatim>\<open>undefined\<close>.\<close>

definition new_Error :: "jsval \<Rightarrow> js_error" where
  "new_Error v =
     (if v = Undefined then Error ''''
      else case to_string v of Inl e \<Rightarrow> e | Inr s \<Rightarrow> Error s)"

text \<open>Sequencing of steps that may throw.\<close>

definition bind_js :: "js_error + 'a \<Rightarrow> ('a \<Rightarrow> js_error + 'b) \<Rightarrow> js_error + 'b" where
  "bind_js m f = (case m of Inl e \<Rightarrow> Inl e | Inr x \<Rightarrow> f x)"

section \<open>Haxroomie.js: the registry of sessions\<close>

text \<open>
  Objects with identity (the browser, its pages, the RoomController instances) are
  references: natural numbers. A RoomController's reference is its index in the heap of
  controllers, in order of construction.
\<close>

record room_controller =
  id_rc :: jsval
  page :: nat
  usable :: bool
  roomInfo :: jsval
  openRoomLock :: bool
  timeout :: nat

text \<open>
  \<^verbatim>\<open>this.roomSessions = {}\<close> is a plain object used as a dictionary: own properties,
  and a prototype, which is \<^verbatim>\<open>Object.prototype\<close> until an assignment to the key
  \<^verbatim>\<open>__proto__\<close> replaces it.
\<close>

datatype proto = ObjectPrototype | ControllerProto nat

record room_sessions =
  own :: "(string \<times> nat) list"
  proto :: proto

text \<open>What a property read of \<^verbatim>\<open>this.roomSessions\<close> finds.\<close>

datatype slot = Absent | Ctl nat | Foreign bool

text \<open>
  A member found on a RoomController instance or its classes: a data property or a
  getter without setter, with the truthiness of the value read.
\<close>

datatype member = DataMember bool | GetterMember bool

fun member_truthy :: "member \<Rightarrow> bool" where
  "member_truthy (DataMember t) = t"
| "member_truthy (GetterMember t) = t"

definition object_prototype_names :: "string list" where
  "object_prototype_names =
     [''constructor'', ''hasOwnProperty'', ''isPrototypeOf'', ''propertyIsEnumerable'',
      ''toLocaleString'', ''toString'', ''valueOf'', ''__defineGetter__'',
      ''__defineSetter__'', ''__lookupGetter__'', ''__lookupSetter__'']"

text \<open>
  \<^verbatim>\<open>this.roomSessions[k]\<close>. The parameter \<open>members\<close> says what a RoomController
  instance answers for a name (its fields and methods and those of EventEmitter); it is
  consulted only when a controller has become the prototype.
\<close>

definition rs_get :: "(nat \<Rightarrow> string \<Rightarrow> member option) \<Rightarrow> room_sessions \<Rightarrow> string \<Rightarrow> slot" where
  "rs_get members rs k =
     (case map_of (own rs) k of
        Some r \<Rightarrow> Ctl r
      | None \<Rightarrow>
          if k = ''__proto__''
          then (case proto rs of ObjectPrototype \<Rightarrow> Foreign True | ControllerProto r \<Rightarrow> Ctl r)
          else (case (case proto rs of ObjectPrototype \<Rightarrow> None | ControllerProto r \<Rightarrow> members r k) of
                  Some m \<Rightarrow> Foreign (member_truthy m)
                | None \<Rightarrow> if k \<in> set object_prototype_names then Foreign True else Absent))"

fun slot_truthy :: "slot \<Rightarrow> bool" where
  "slot_truthy Absent = False"
| "slot_truthy (Ctl r) = True"
| "slot_truthy (Foreign t) = t"

text \<open>
  \<^verbatim>\<open>this.roomSessions[k] = room\<close>, in the strict mode of a class body: an own property
  is written or created, except that the key \<^verbatim>\<open>__proto__\<close> sets the prototype and a
  getter without setter on the prototype chain throws.
\<close>

definition rs_set :: "(nat \<Rightarrow> string \<Rightarrow> member option) \<Rightarrow> room_sessions \<Rightarrow> string \<Rightarrow> nat
    \<Rightarrow> js_error + room_sessions" where
  "rs_set members rs k r =
     (if map_of (own rs) k \<noteq> None
        then Inr (rs\<lparr>own := map (\<lambda>(k', r'). if k' = k then (k', r) else (k', r')) (own rs)\<rparr>)
      else if k = ''__proto__'' then Inr (rs\<lparr>proto := ControllerProto r\<rparr>)
      else (case (case proto rs of ObjectPrototype \<Rightarrow> None | ControllerProto p \<Rightarrow> members p k) of
              Some (GetterMember t) \<Rightarrow>
                Inl (TypeError (''Cannot set property '' @ k @ '' of #<Object> which has only a getter''))
            | _ \<Rightarrow> Inr (rs\<lparr>own := own rs @ [(k, r)]\<rparr>)))"

record haxroomie =
  browser :: "nat option"
  roomSessions :: room_sessions
  viewport :: jsval
  port :: jsval
  noSandbox :: jsval
  headless :: jsval
  userDataDir :: jsval

text \<open>
  The constructor. \<open>default_dir\<close> is the value of
  \<^verbatim>\<open>path.resolve(path.join(__dirname, '..', 'user-data-dir'))\<close>.
\<close>

definition Haxroomie_constructor :: "string \<Rightarrow> jsval \<Rightarrow> js_error + haxroomie" where
  "Haxroomie_constructor default_dir opt0 =
     (let opt = or_else opt0 (JObj []) in
      bind_js (get opt ''viewport'') (\<lambda>vp.
      bind_js (get opt ''port'') (\<lambda>p.
      if or_else p (JNum 3066) = JNum 0 then Inl (Error ''INVALID_PORT: 0'')
      else
      bind_js (get opt ''noSandbox'') (\<lambda>ns.
      bind_js (hasOwnProperty opt ''headless'') (\<lambda>has.
      bind_js (get opt ''headless'') (\<lambda>hl.
      bind_js (get opt ''userDataDir'') (\<lambda>ud.
      Inr \<lparr>browser = None,
           roomSessions = \<lparr>own = [], proto = ObjectPrototype\<rparr>,
           viewport = or_else vp (JObj [(''width'', JNum 400), (''height'', JNum 500)]),
           port = or_else p (JNum 3066),
           noSandbox = or_else ns (JBool False),
           headless = (if has then hl else JBool True),
           userDataDir = or_else ud (JStr default_dir)\<rparr>)))))))"

text \<open>
  \<^verbatim>\<open>getRunningBrowser\<close>: \<open>connect\<close> is the outcome of \<^verbatim>\<open>puppeteer.connect\<close> on the
  configured port (a browser handle, or the rejection that the \<^verbatim>\<open>catch\<close> swallows).
\<close>

definition getRunningBrowser :: "js_error + nat \<Rightarrow> haxroomie \<Rightarrow> nat option \<times> haxroomie" where
  "getRunningBrowser connect h =
     (case connect of
        Inl err \<Rightarrow> (None, h)
      | Inr b \<Rightarrow> (Some b, h\<lparr>browser := Some b\<rparr>))"

definition BROWSER_RUNNING :: "string \<Rightarrow> string" where
  "BROWSER_RUNNING p =
     ''BROWSER_RUNNING: http://localhost:'' @ p @ ''.'' @ [CHR 0x0A]
       @ ''        Use another port or close the browser.''"

text \<open>\<^verbatim>\<open>createBrowser\<close>: \<open>launch\<close> is the outcome of \<^verbatim>\<open>puppeteer.launch\<close>.\<close>

definition createBrowser :: "js_error + nat \<Rightarrow> js_error + nat \<Rightarrow> haxroomie
    \<Rightarrow> (js_error + nat) \<times> haxroomie" where
  "createBrowser connect launch h =
     (case getRunningBrowser connect h of
        (Some b, h1) \<Rightarrow>
          (case to_string (port h1) of
             Inl e \<Rightarrow> (Inl e, h1)
           | Inr p \<Rightarrow> (Inl (Error (BROWSER_RUNNING p)), h1))
      | (None, h1) \<Rightarrow>
          (case browser h1 of
             None \<Rightarrow>
               (case launch of
                  Inl e \<Rightarrow> (Inl e, h1)
                | Inr b \<Rightarrow> (Inr b, h1\<lparr>browser := Some b\<rparr>))
           | Some b \<Rightarrow> (Inr b, h1)))"

text \<open>\<^verbatim>\<open>closeBrowser\<close>: \<open>closed\<close> is the outcome of \<^verbatim>\<open>browser.close()\<close>.\<close>

definition closeBrowser :: "js_error option \<Rightarrow> haxroomie \<Rightarrow> js_error option" where
  "closeBrowser closed h = (case browser h of None \<Rightarrow> None | Some b \<Rightarrow> closed)"

text \<open>
  The arguments of \<^verbatim>\<open>new RoomController(opt)\<close>: \<^verbatim>\<open>opt.id\<close> and \<^verbatim>\<open>opt.page\<close>
  (a page reference, or none).
\<close>

record ctor_opt =
  opt_id :: jsval
  opt_page :: "nat option"

definition validateArguments :: "ctor_opt option \<Rightarrow> js_error + jsval \<times> nat" where
  "validateArguments opt =
     (case opt of
        None \<Rightarrow> Inl (Error ''Missing required argument: opt'')
      | Some c \<Rightarrow>
          if \<not> truthy (opt_id c) \<and> opt_id c \<noteq> JNum 0
          then Inl (Error ''Missing required argument: opt.id'')
          else (case opt_page c of
                  None \<Rightarrow> Inl (Error ''Missing required argument: opt.page'')
                | Some p \<Rightarrow> Inr (opt_id c, p)))"

text \<open>
  The constructor of RoomController. The listeners that \<^verbatim>\<open>registerPageListeners\<close>
  installs are the handlers \<open>on_pageerror\<close>, \<open>on_error\<close>, \<open>on_console\<close> and
  \<open>on_close\<close> below.
\<close>

definition RoomController_constructor :: "ctor_opt option \<Rightarrow> js_error + room_controller" where
  "RoomController_constructor opt =
     (case validateArguments opt of
        Inl e \<Rightarrow> Inl e
      | Inr (i, p) \<Rightarrow>
          Inr \<lparr>id_rc = i, page = p, usable = True, roomInfo = Null,
               openRoomLock = False, timeout = 15\<rparr>)"

type_synonym registry = "haxroomie \<times> room_controller list"

text \<open>
  \<^verbatim>\<open>initSession(page, sessionID)\<close>: \<open>pg\<close> is the page (none when \<^verbatim>\<open>pages[0]\<close> is
  \<^verbatim>\<open>undefined\<close>), \<open>emulate\<close> the rejection of \<^verbatim>\<open>page.emulate\<close>, if any. The value
  returned is \<^verbatim>\<open>room.session\<close>: the class RoomController declares no member of that
  name (nor does EventEmitter), so the read gives \<^verbatim>\<open>undefined\<close>.
\<close>

definition initSession :: "(nat \<Rightarrow> string \<Rightarrow> member option) \<Rightarrow> (nat \<Rightarrow> js_error option)
    \<Rightarrow> nat option \<Rightarrow> jsval \<Rightarrow> registry \<Rightarrow> (js_error + jsval) \<times> registry" where
  "initSession members emulate pg sessionID hs =
     (case hs of (h, heap) \<Rightarrow>
      (case bind_js (get (viewport h) ''width'') (\<lambda>w. get (viewport h) ''height'') of
         Inl e \<Rightarrow> (Inl e, (h, heap))
       | Inr hgt \<Rightarrow>
      (case pg of
         None \<Rightarrow> (Inl (TypeError ''Cannot read property emulate of undefined''), (h, heap))
       | Some p \<Rightarrow>
      (case emulate p of
         Some e \<Rightarrow> (Inl e, (h, heap))
       | None \<Rightarrow>
      (case RoomController_constructor (Some \<lparr>opt_id = sessionID, opt_page = Some p\<rparr>) of
         Inl e \<Rightarrow> (Inl e, (h, heap))
       | Inr room \<Rightarrow>
      (case bind_js (to_string sessionID) (\<lambda>k. rs_set members (roomSessions h) k (length heap)) of
         Inl e \<Rightarrow> (Inl e, (h, heap @ [room]))
       | Inr rs \<Rightarrow>
           (Inr Undefined, (h\<lparr>roomSessions := rs\<rparr>, heap @ [room]))))))))"

text \<open>
  \<^verbatim>\<open>getSession(sessionID)\<close>: \<open>pages\<close> is the outcome of \<^verbatim>\<open>browser.pages()\<close>,
  \<open>newPage\<close> that of \<^verbatim>\<open>browser.newPage()\<close>. For an identifier that is found, the
  value returned is \<^verbatim>\<open>this.roomSessions[sessionID].session\<close>: \<^verbatim>\<open>undefined\<close> for a
  controller, which has no such member, and for the functions that every object inherits;
  what is found through a controller that has become the prototype is taken to have no
  such member either.
\<close>

definition getSession :: "(nat \<Rightarrow> string \<Rightarrow> member option) \<Rightarrow> js_error + nat list
    \<Rightarrow> js_error + nat \<Rightarrow> (nat \<Rightarrow> js_error option)
    \<Rightarrow> jsval \<Rightarrow> registry \<Rightarrow> (js_error + jsval) \<times> registry" where
  "getSession members pages newPage emulate sessionID hs =
     (case hs of (h, heap) \<Rightarrow>
      if browser h = None then (Inl (Error ''Browser is not running!''), hs)
      else if \<not> truthy sessionID \<and> sessionID \<noteq> JNum 0
        then (Inl (Error ''Missing required argument: sessionID''), hs)
      else if own (roomSessions h) = []
        then (case pages of
                Inl e \<Rightarrow> (Inl e, hs)
              | Inr ps \<Rightarrow>
                  initSession members emulate (case ps of [] \<Rightarrow> None | p # _ \<Rightarrow> Some p)
                    sessionID hs)
      else (case to_string sessionID of
              Inl e \<Rightarrow> (Inl e, hs)
            | Inr k \<Rightarrow>
                if \<not> slot_truthy (rs_get members (roomSessions h) k)
                then (case newPage of
                        Inl e \<Rightarrow> (Inl e, hs)
                      | Inr p \<Rightarrow> initSession members emulate (Some p) sessionID hs)
                else (Inr Undefined, hs)))"

section \<open>RoomController.js: one session\<close>

text \<open>
  What a method or handler does to the outside: a notification to the subscribers
  (\<^verbatim>\<open>this.emit\<close>), a call of the RoomOpener, a function evaluated in the page. Calls of
  the diagnostic logger are left out.
\<close>

datatype payload = PValue jsval | PError js_error

datatype page_fn =
    Hroomie_callRoom | Kickban_kick | Kickban_ban | Kickban_unban | Kickban_bannedPlayers
  | Hroomie_getPlugins | Hroomie_getPlugin | Hroomie_enablePlugin | Hroomie_disablePlugin
  | Hroomie_getDependentPlugins | Eval_js | Manager_hasPluginByName | Manager_addPluginByCode
  | Manager_addRepository | Get_repositories | Clear_repositories | Set_plugin_config
  | Get_plugin_config_of | Get_plugin_config_all

datatype effect =
    Emit string "payload list"
  | RoomOpener_open jsval
  | RoomOpener_close
  | Evaluate page_fn "jsval list"

text \<open>
  \<^verbatim>\<open>this.page.evaluate(f, ...args)\<close>: the page in state \<open>'r\<close> answers with a value or
  a rejection and moves to a new state.
\<close>

type_synonym 'r page_eval = "page_fn \<Rightarrow> jsval list \<Rightarrow> 'r \<Rightarrow> (js_error + jsval) \<times> 'r"

definition running :: "room_controller \<Rightarrow> bool" where
  "running s = (if truthy (roomInfo s) then True else False)"

subsection \<open>Notifications and the listeners' calls\<close>

text \<open>
  \<^verbatim>\<open>this.emit\<close> runs the subscribers' listeners at once, before the statement that
  follows it. In three places a field is written after an emit: in the handlers of the
  page's \<^verbatim>\<open>error\<close> and \<^verbatim>\<open>close\<close> (\<open>usable\<close>) and in \<^verbatim>\<open>openRoom\<close> (\<open>openRoomLock\<close>).
  There, what the listeners do is part of the step: they may call \<^verbatim>\<open>openRoom\<close> and
  \<^verbatim>\<open>closeRoom\<close> on the controller, each call running up to its first \<^verbatim>\<open>await\<close>, and one
  of them may throw, which ends the delivery and the code that emitted. A \<open>call\<close> is
  one such call; \<open>Call_openRoom config calls thrown\<close> carries what the listeners of its
  own \<^verbatim>\<open>open-room-start\<close> do. Listeners may also call the methods that evaluate in the
  page: these never write the controller and are not listed.

  At every other emit no write follows: what listeners call there is a later action of
  the transition system below, and they are taken to return normally.
\<close>

datatype call = Call_openRoom jsval "call list" "js_error option" | Call_closeRoom

text \<open>
  \<open>closeRoom_call\<close> is \<^verbatim>\<open>closeRoom\<close> up to \<^verbatim>\<open>await this.roomOpener.close()\<close>: it throws,
  or it is pending (\<open>Inr ()\<close>).
\<close>

definition closeRoom_call :: "room_controller
    \<Rightarrow> (js_error + unit) \<times> room_controller \<times> effect list" where
  "closeRoom_call s =
     (if \<not> usable s then (Inl (Error ''Room is no longer usable.''), s, [])
      else (Inr (), s, [RoomOpener_close]))"

text \<open>
  An \<^verbatim>\<open>async\<close> method runs without interruption up to its \<^verbatim>\<open>await\<close>; other calls and
  page events may run before it resumes. \<open>openRoom_call\<close> is \<^verbatim>\<open>openRoom\<close> up to
  \<^verbatim>\<open>await this.roomOpener.open(config)\<close>: it throws, or it is pending (\<open>Inr ()\<close>). The
  listeners of \<^verbatim>\<open>open-room-start\<close> make the calls \<open>calls\<close>, in this order, and then throw
  \<open>thrown\<close>, if any; the lock is set after they have returned. \<open>react\<close> runs the calls
  of listeners one after the other.
\<close>

fun openRoom_call :: "call list \<Rightarrow> js_error option \<Rightarrow> jsval \<Rightarrow> room_controller
    \<Rightarrow> (js_error + unit) \<times> room_controller \<times> effect list"
  and react :: "call list \<Rightarrow> room_controller \<Rightarrow> room_controller \<times> effect list" where
  "openRoom_call calls thrown config s =
     (if \<not> usable s then (Inl (Error ''Room is no longer usable.''), s, [])
      else if openRoomLock s then (Inl (Error ''Room is already being opened!''), s, [])
      else (case react calls s of
              (s1, out) \<Rightarrow>
                (case thrown of
                   Some e \<Rightarrow> (Inl e, s1, Emit ''open-room-start'' [PValue config] # out)
                 | None \<Rightarrow>
                     (Inr (), s1\<lparr>openRoomLock := True\<rparr>,
                      Emit ''open-room-start'' [PValue config] # out @ [RoomOpener_open config]))))"
| "react [] s = (s, [])"
| "react (Call_openRoom config calls thrown # cs) s =
     (case openRoom_call calls thrown config s of
        (res, s1, out1) \<Rightarrow> (case react cs s1 of (s2, out2) \<Rightarrow> (s2, out1 @ out2)))"
| "react (Call_closeRoom # cs) s =
     (case closeRoom_call s of
        (res, s1, out1) \<Rightarrow> (case react cs s1 of (s2, out2) \<Rightarrow> (s2, out1 @ out2)))"

declare openRoom_call.simps [simp del]

subsection \<open>The listeners of \<^verbatim>\<open>registerPageListeners\<close>\<close>

record console_msg =
  msg_type :: string
  msg_text :: string
  msg_args :: "(string \<times> string) list"

definition startsWith :: "string \<Rightarrow> string \<Rightarrow> bool" where
  "startsWith s pfx = (take (length pfx) s = pfx)"

definition on_pageerror :: "js_error \<Rightarrow> room_controller \<Rightarrow> room_controller \<times> effect list" where
  "on_pageerror error s = (s, [Emit ''page-error'' [PError error]])"

text \<open>
  The handler of the page's \<^verbatim>\<open>error\<close>: \<^verbatim>\<open>page-crash\<close> is emitted first, and
  \<open>usable\<close> is set to false when the listeners have returned.
\<close>

definition on_error :: "js_error \<Rightarrow> call list \<Rightarrow> js_error option \<Rightarrow> room_controller
    \<Rightarrow> room_controller \<times> effect list" where
  "on_error error calls thrown s =
     (case react calls s of
        (s1, out) \<Rightarrow>
          (case thrown of
             Some e \<Rightarrow> (s1, Emit ''page-crash'' [PError error] # out)
           | None \<Rightarrow> (s1\<lparr>usable := False\<rparr>, Emit ''page-crash'' [PError error] # out)))"

text \<open>
  \<open>msg_args\<close> holds, for each handle of \<^verbatim>\<open>msg.args()\<close>, the \<^verbatim>\<open>type\<close> and the
  \<^verbatim>\<open>description\<close> of its \<^verbatim>\<open>_remoteObject\<close>.
\<close>

definition on_console :: "console_msg \<Rightarrow> room_controller \<Rightarrow> room_controller \<times> effect list" where
  "on_console msg s =
     (if msg_type msg = ''error'' then
        (if startsWith (msg_text msg)
              (''Failed to load resource: the server responded with a ''
                @ ''status of 404 (Not Found)'')
         then (s, [])
         else (s, [Emit ''error-logged''
                     [PValue (JStr (msg_text msg
                        @ concat (map (\<lambda>(ty, description). [CHR 0x0A] @ description)
                                   (filter (\<lambda>(ty, description). ty = ''object'') (msg_args msg)))))]]))
      else if msg_type msg = ''warning''
        then (s, [Emit ''warning-logged'' [PValue (JStr (msg_text msg))]])
      else (s, []))"

text \<open>
  The handler of the page's \<^verbatim>\<open>close\<close>: \<^verbatim>\<open>page-closed\<close> is emitted first, and
  \<open>usable\<close> is set to false when the listeners have returned.
\<close>

definition on_close :: "call list \<Rightarrow> js_error option \<Rightarrow> room_controller
    \<Rightarrow> room_controller \<times> effect list" where
  "on_close calls thrown s =
     (case react calls s of
        (s1, out) \<Rightarrow>
          (case thrown of
             Some e \<Rightarrow> (s1, Emit ''page-closed'' [] # out)
           | None \<Rightarrow> (s1\<lparr>usable := False\<rparr>, Emit ''page-closed'' [] # out)))"

subsection \<open>Events from the room\<close>

definition onRoomEvent :: "jsval \<Rightarrow> effect list" where
  "onRoomEvent eventArgs = [Emit ''room-event'' [PValue eventArgs]]"

definition onHHMEvent :: "jsval \<Rightarrow> js_error + effect list" where
  "onHHMEvent eventArgs =
     bind_js (get eventArgs ''eventType'') (\<lambda>eventType.
     bind_js (get eventArgs ''pluginData'') (\<lambda>pluginData.
       if eventType = JStr ''pluginLoaded'' then Inr [Emit ''plugin-loaded'' [PValue pluginData]]
       else if eventType = JStr ''pluginRemoved'' then Inr [Emit ''plugin-removed'' [PValue pluginData]]
       else if eventType = JStr ''pluginEnabled'' then Inr [Emit ''plugin-enabled'' [PValue pluginData]]
       else if eventType = JStr ''pluginDisabled'' then Inr [Emit ''plugin-disabled'' [PValue pluginData]]
       else Inr []))"

subsection \<open>\<^verbatim>\<open>openRoom\<close> and \<^verbatim>\<open>closeRoom\<close>\<close>

text \<open>
  \<open>openRoom_resume\<close> is \<^verbatim>\<open>openRoom\<close> after its \<^verbatim>\<open>await\<close>, given how the RoomOpener
  settled.
\<close>

definition openRoom_resume :: "js_error + jsval \<Rightarrow> room_controller
    \<Rightarrow> (js_error + jsval) \<times> room_controller \<times> effect list" where
  "openRoom_resume settled s =
     (case settled of
        Inl err \<Rightarrow>
          (Inr Undefined, s\<lparr>openRoomLock := False\<rparr>, [Emit ''open-room-error'' [PError err]])
      | Inr info \<Rightarrow>
          (Inr info, s\<lparr>roomInfo := info, openRoomLock := False\<rparr>,
           [Emit ''open-room-stop'' [PValue info]]))"


text \<open>\<open>settled\<close>: the rejection of \<^verbatim>\<open>RoomOpener.close()\<close>, if it threw.\<close>

definition closeRoom_resume :: "js_error option \<Rightarrow> room_controller
    \<Rightarrow> (js_error + jsval) \<times> room_controller \<times> effect list" where
  "closeRoom_resume settled s =
     (case settled of
        Some err \<Rightarrow> (Inl err, s, [])
      | None \<Rightarrow> (Inr Undefined, s\<lparr>roomInfo := Null\<rparr>, [Emit ''close-room'' []]))"

definition closeRoom :: "js_error option \<Rightarrow> room_controller
    \<Rightarrow> (js_error + jsval) \<times> room_controller \<times> effect list" where
  "closeRoom closer s =
     (case closeRoom_call s of
        (Inl e, s1, out1) \<Rightarrow> (Inl e, s1, out1)
      | (Inr u, s1, out1) \<Rightarrow>
          (case closeRoom_resume closer s1 of
             (res, s2, out2) \<Rightarrow> (res, s2, out1 @ out2)))"

subsection \<open>Methods that evaluate in the page\<close>

text \<open>
  None of the methods below assigns a field of the controller, so they return no new
  controller state: a result, the new state of the page, and what they did.
\<close>

definition evaluate :: "'r page_eval \<Rightarrow> page_fn \<Rightarrow> jsval list \<Rightarrow> 'r
    \<Rightarrow> (js_error + jsval) \<times> 'r \<times> effect list" where
  "evaluate pg f args r = (case pg f args r of (res, r1) \<Rightarrow> (res, r1, [Evaluate f args]))"

text \<open>\<^verbatim>\<open>await this.page.evaluate(...)\<close> as a statement: the value is dropped.\<close>

definition evaluate_void :: "'r page_eval \<Rightarrow> page_fn \<Rightarrow> jsval list \<Rightarrow> 'r
    \<Rightarrow> (js_error + jsval) \<times> 'r \<times> effect list" where
  "evaluate_void pg f args r =
     (case pg f args r of
        (Inl e, r1) \<Rightarrow> (Inl e, r1, [Evaluate f args])
      | (Inr v, r1) \<Rightarrow> (Inr Undefined, r1, [Evaluate f args]))"

fun typeof :: "jsval \<Rightarrow> string" where
  "typeof Undefined = ''undefined''"
| "typeof Null = ''object''"
| "typeof (JBool b) = ''boolean''"
| "typeof (JNum n) = ''number''"
| "typeof (JStr s) = ''string''"
| "typeof (JObj ps) = ''object''"

text \<open>
  \<^verbatim>\<open>callRoom(fn, ...args)\<close>: the page function is given \<^verbatim>\<open>fn\<close> and the arguments;
  its answer is the envelope with the properties \<^verbatim>\<open>error\<close> and \<^verbatim>\<open>payload\<close>.
\<close>

definition unwrap :: "jsval \<Rightarrow> js_error + jsval" where
  "unwrap result =
     bind_js (get result ''error'') (\<lambda>err.
       if truthy err then bind_js (get result ''payload'') (\<lambda>p. Inl (new_Error p))
       else bind_js (get result ''payload'') (\<lambda>p. get p ''result''))"

definition callRoom :: "'r page_eval \<Rightarrow> jsval \<Rightarrow> jsval list \<Rightarrow> room_controller \<Rightarrow> 'r
    \<Rightarrow> (js_error + jsval) \<times> 'r \<times> effect list" where
  "callRoom pg fn args s r =
     (if \<not> usable s then (Inl (Error ''Room is no longer usable.''), r, [])
      else if \<not> running s then (Inl (Error ''Room is not running.''), r, [])
      else if \<not> truthy fn then (Inl (Error ''Missing required argument: fn''), r, [])
      else (case pg Hroomie_callRoom (fn # args) r of
              (Inl e, r1) \<Rightarrow> (Inl e, r1, [Evaluate Hroomie_callRoom (fn # args)])
            | (Inr result, r1) \<Rightarrow> (unwrap result, r1, [Evaluate Hroomie_callRoom (fn # args)])))"

definition kick :: "'r page_eval \<Rightarrow> jsval \<Rightarrow> room_controller \<Rightarrow> 'r
    \<Rightarrow> (js_error + jsval) \<times> 'r \<times> effect list" where
  "kick pg i s r =
     (if \<not> usable s then (Inl (Error ''Room is no longer usable.''), r, [])
      else if \<not> running s then (Inl (Error ''Room is not running.''), r, [])
      else if \<not> truthy i \<and> i \<noteq> JNum 0
        then (Inl (Error ''Missing required argument: id''), r, [])
      else evaluate_void pg Kickban_kick [i] r)"

definition ban :: "'r page_eval \<Rightarrow> jsval \<Rightarrow> room_controller \<Rightarrow> 'r
    \<Rightarrow> (js_error + jsval) \<times> 'r \<times> effect list" where
  "ban pg i s r =
     (if \<not> usable s then (Inl (Error ''Room is no longer usable.''), r, [])
      else if \<not> running s then (Inl (Error ''Room is not running.''), r, [])
      else if \<not> truthy i \<and> i \<noteq> JNum 0
        then (Inl (Error ''Missing required argument: id''), r, [])
      else evaluate_void pg Kickban_ban [i] r)"

definition unban :: "'r page_eval \<Rightarrow> jsval \<Rightarrow> room_controller \<Rightarrow> 'r
    \<Rightarrow> (js_error + jsval) \<times> 'r \<times> effect list" where
  "unban pg i s r =
     (if \<not> usable s then (Inl (Error ''Room is no longer usable.''), r, [])
      else if \<not> running s then (Inl (Error ''Room is not running.''), r, [])
      else if \<not> truthy i \<and> i \<noteq> JNum 0
        then (Inl (Error ''Missing required argument: id''), r, [])
      else evaluate_void pg Kickban_unban [i] r)"

definition bannedPlayers :: "'r page_eval \<Rightarrow> room_controller \<Rightarrow> 'r
    \<Rightarrow> (js_error + jsval) \<times> 'r \<times> effect list" where
  "bannedPlayers pg s r =
     (if \<not> usable s then (Inl (Error ''Room is no longer usable.''), r, [])
      else if \<not> running s then (Inl (Error ''Room is not running.''), r, [])
      else evaluate pg Kickban_bannedPlayers [] r)"

definition getPlugins :: "'r page_eval \<Rightarrow> room_controller \<Rightarrow> 'r
    \<Rightarrow> (js_error + jsval) \<times> 'r \<times> effect list" where
  "getPlugins pg s r =
     (if \<not> usable s then (Inl (Error ''Room is no longer usable.''), r, [])
      else if \<not> running s then (Inl (Error ''Room is not running.''), r, [])
      else evaluate pg Hroomie_getPlugins [] r)"

definition getPlugin :: "'r page_eval \<Rightarrow> jsval \<Rightarrow> room_controller \<Rightarrow> 'r
    \<Rightarrow> (js_error + jsval) \<times> 'r \<times> effect list" where
  "getPlugin pg name s r =
     (if \<not> usable s then (Inl (Error ''Room is no longer usable.''), r, [])
      else if \<not> running s then (Inl (Error ''Room is not running.''), r, [])
      else evaluate pg Hroomie_getPlugin [name] r)"

definition enablePlugin :: "'r page_eval \<Rightarrow> jsval \<Rightarrow> room_controller \<Rightarrow> 'r
    \<Rightarrow> (js_error + jsval) \<times> 'r \<times> effect list" where
  "enablePlugin pg name s r =
     (if \<not> usable s then (Inl (Error ''Room is no longer usable.''), r, [])
      else if \<not> running s then (Inl (Error ''Room is not running.''), r, [])
      else evaluate pg Hroomie_enablePlugin [name] r)"

definition disablePlugin :: "'r page_eval \<Rightarrow> jsval \<Rightarrow> room_controller \<Rightarrow> 'r
    \<Rightarrow> (js_error + jsval) \<times> 'r \<times> effect list" where
  "disablePlugin pg name s r =
     (if \<not> usable s then (Inl (Error ''Room is no longer usable.''), r, [])
      else if \<not> running s then (Inl (Error ''Room is not running.''), r, [])
      else evaluate pg Hroomie_disablePlugin [name] r)"

definition getPluginsThatDependOn :: "'r page_eval \<Rightarrow> jsval \<Rightarrow> room_controller \<Rightarrow> 'r
    \<Rightarrow> (js_error + jsval) \<times> 'r \<times> effect list" where
  "getPluginsThatDependOn pg name s r =
     (if \<not> usable s then (Inl (Error ''Room is no longer usable.''), r, [])
      else if \<not> running s then (Inl (Error ''Room is not running.''), r, [])
      else evaluate pg Hroomie_getDependentPlugins [name] r)"

definition eval_js :: "'r page_eval \<Rightarrow> jsval \<Rightarrow> room_controller \<Rightarrow> 'r
    \<Rightarrow> (js_error + jsval) \<times> 'r \<times> effect list" where
  "eval_js pg js s r =
     (if \<not> usable s then (Inl (Error ''Room is no longer usable.''), r, [])
      else if \<not> running s then (Inl (Error ''Room is not running.''), r, [])
      else evaluate pg Eval_js [js] r)"

definition hasPlugin :: "'r page_eval \<Rightarrow> jsval \<Rightarrow> room_controller \<Rightarrow> 'r
    \<Rightarrow> (js_error + jsval) \<times> 'r \<times> effect list" where
  "hasPlugin pg plugin s r =
     (if \<not> usable s then (Inl (Error ''Room is no longer usable.''), r, [])
      else if \<not> running s then (Inl (Error ''Room is not running.''), r, [])
      else evaluate pg Manager_hasPluginByName [plugin] r)"

definition addPlugin :: "'r page_eval \<Rightarrow> jsval \<Rightarrow> room_controller \<Rightarrow> 'r
    \<Rightarrow> (js_error + jsval) \<times> 'r \<times> effect list" where
  "addPlugin pg plugin s r =
     (if \<not> usable s then (Inl (Error ''Room is no longer usable.''), r, [])
      else if \<not> running s then (Inl (Error ''Room is not running.''), r, [])
      else evaluate pg Manager_addPluginByCode [plugin] r)"

definition addRepository :: "'r page_eval \<Rightarrow> jsval \<Rightarrow> jsval \<Rightarrow> room_controller \<Rightarrow> 'r
    \<Rightarrow> (js_error + jsval) \<times> 'r \<times> effect list" where
  "addRepository pg repository append_arg s r =
     (if \<not> usable s then (Inl (Error ''Room is no longer usable.''), r, [])
      else if \<not> running s then (Inl (Error ''Room is not running.''), r, [])
      else if \<not> truthy repository
        then (Inl (TypeError ''Missing required argument: repository''), r, [])
      else evaluate pg Manager_addRepository [repository, append_arg] r)"

definition getRepositories :: "'r page_eval \<Rightarrow> room_controller \<Rightarrow> 'r
    \<Rightarrow> (js_error + jsval) \<times> 'r \<times> effect list" where
  "getRepositories pg s r =
     (if \<not> usable s then (Inl (Error ''Room is no longer usable.''), r, [])
      else if \<not> running s then (Inl (Error ''Room is not running.''), r, [])
      else evaluate pg Get_repositories [] r)"

definition clearRepositories :: "'r page_eval \<Rightarrow> room_controller \<Rightarrow> 'r
    \<Rightarrow> (js_error + jsval) \<times> 'r \<times> effect list" where
  "clearRepositories pg s r =
     (if \<not> usable s then (Inl (Error ''Room is no longer usable.''), r, [])
      else if \<not> running s then (Inl (Error ''Room is not running.''), r, [])
      else evaluate pg Clear_repositories [] r)"

text \<open>
  The loop of the unscoped \<^verbatim>\<open>setPluginConfig\<close> over \<^verbatim>\<open>Object.entries(pluginConfig)\<close>:
  one awaited evaluation for each entry, in order; a rejection leaves the loop and the
  method.
\<close>

fun setPluginConfig_entries :: "'r page_eval \<Rightarrow> (string \<times> jsval) list \<Rightarrow> 'r
    \<Rightarrow> (js_error + jsval) \<times> 'r \<times> effect list" where
  "setPluginConfig_entries pg [] r = (Inr Undefined, r, [])"
| "setPluginConfig_entries pg ((name, config) # rest) r =
     (case pg Set_plugin_config [JStr name, config] r of
        (Inl e, r1) \<Rightarrow> (Inl e, r1, [Evaluate Set_plugin_config [JStr name, config]])
      | (Inr v, r1) \<Rightarrow>
          (case setPluginConfig_entries pg rest r1 of
             (res, r2, out) \<Rightarrow> (res, r2, Evaluate Set_plugin_config [JStr name, config] # out)))"

text \<open>
  \<^verbatim>\<open>setPluginConfig(pluginConfig, pluginName)\<close>. The own properties of a \<open>JObj\<close> are
  listed in the order in which \<^verbatim>\<open>Object.entries\<close> enumerates them.
\<close>

definition setPluginConfig :: "'r page_eval \<Rightarrow> jsval \<Rightarrow> jsval \<Rightarrow> room_controller \<Rightarrow> 'r
    \<Rightarrow> (js_error + jsval) \<times> 'r \<times> effect list" where
  "setPluginConfig pg pluginConfig pluginName s r =
     (if \<not> usable s then (Inl (Error ''Room is no longer usable.''), r, [])
      else if \<not> running s then (Inl (Error ''Room is not running.''), r, [])
      else if \<not> truthy pluginConfig
        then (Inl (Error ''Missing required argument: pluginConfig''), r, [])
      else if typeof pluginConfig \<noteq> ''object''
        then (Inl (TypeError ''typeof pluginConfig should be object''), r, [])
      else if typeof pluginName = ''string''
        then evaluate_void pg Set_plugin_config [pluginName, pluginConfig] r
      else (case pluginConfig of
              JObj entries \<Rightarrow> setPluginConfig_entries pg entries r
            | _ \<Rightarrow> (Inr Undefined, r, [])))"

definition getPluginConfig :: "'r page_eval \<Rightarrow> jsval \<Rightarrow> room_controller \<Rightarrow> 'r
    \<Rightarrow> (js_error + jsval) \<times> 'r \<times> effect list" where
  "getPluginConfig pg pluginName s r =
     (if typeof pluginName = ''string''
      then evaluate pg Get_plugin_config_of [pluginName] r
      else evaluate pg Get_plugin_config_all [] r)"

subsection \<open>The function that \<^verbatim>\<open>setPluginConfig\<close> evaluates in the page\<close>

text \<open>
  The plugin manager of the page (\<^verbatim>\<open>HHM.manager\<close>) is an external library: its three
  operations are parameters over its state \<open>'m\<close>. \<^verbatim>\<open>addPluginByName\<close> tries to load
  a plugin from the repositories and answers a negative id when it cannot.
\<close>

record 'm hhm_manager =
  getPluginId :: "'m \<Rightarrow> string \<Rightarrow> int"
  addPluginByName :: "'m \<Rightarrow> string \<Rightarrow> int \<times> 'm"
  manager_setPluginConfig :: "'m \<Rightarrow> int \<Rightarrow> jsval \<Rightarrow> 'm"

definition cannot_load :: "string \<Rightarrow> js_error" where
  "cannot_load name =
     Error (''Cannot load plugin '' @ [CHR 0x22] @ name @ [CHR 0x22]
              @ '' from available repositories.'')"

definition page_setPluginConfig :: "'m hhm_manager \<Rightarrow> string \<Rightarrow> jsval \<Rightarrow> 'm
    \<Rightarrow> (js_error + jsval) \<times> 'm" where
  "page_setPluginConfig manager name config m =
     (if getPluginId manager m name < 0
      then (case addPluginByName manager m name of
              (pluginId, m1) \<Rightarrow>
                if pluginId < 0 then (Inl (cannot_load name), m1)
                else (Inr Undefined, manager_setPluginConfig manager m1 pluginId config))
      else (Inr Undefined, manager_setPluginConfig manager m (getPluginId manager m name) config))"

text \<open>
  A page that runs this function for \<open>Set_plugin_config\<close> and answers every other
  evaluation as \<open>other\<close> says.
\<close>

definition hhm_page :: "'m hhm_manager \<Rightarrow> 'm page_eval \<Rightarrow> 'm page_eval" where
  "hhm_page manager other f args m =
     (case (f, args) of
        (Set_plugin_config, [JStr name, config]) \<Rightarrow> page_setPluginConfig manager name config m
      | _ \<Rightarrow> other f args m)"

subsection \<open>A session as a transition system\<close>

text \<open>
  Everything that can happen to a RoomController after its construction: an event of
  its page, an event from the room, the first or the second half of \<^verbatim>\<open>openRoom\<close> or
  \<^verbatim>\<open>closeRoom\<close>, or a call of one of the methods that evaluate in the page. Halves of
  different calls interleave freely. The actions that emit before they write carry what
  the listeners do meanwhile.
\<close>

datatype action =
    Page_pageerror js_error
  | Page_error js_error "call list" "js_error option"
  | Page_console console_msg
  | Page_close "call list" "js_error option"
  | Room_event jsval
  | HHM_event jsval
  | OpenRoom_call jsval "call list" "js_error option"
  | OpenRoom_resume "js_error + jsval"
  | CloseRoom_call
  | CloseRoom_resume "js_error option"
  | Page_method

fun step :: "action \<Rightarrow> room_controller \<Rightarrow> room_controller" where
  "step (Page_pageerror e) s = fst (on_pageerror e s)"
| "step (Page_error e calls thrown) s = fst (on_error e calls thrown s)"
| "step (Page_console msg) s = fst (on_console msg s)"
| "step (Page_close calls thrown) s = fst (on_close calls thrown s)"
| "step (Room_event a) s = s"
| "step (HHM_event a) s = s"
| "step (OpenRoom_call config calls thrown) s = fst (snd (openRoom_call calls thrown config s))"
| "step (OpenRoom_resume settled) s = fst (snd (openRoom_resume settled s))"
| "step CloseRoom_call s = fst (snd (closeRoom_call s))"
| "step (CloseRoom_resume settled) s = fst (snd (closeRoom_resume settled s))"
| "step Page_method s = s"

definition run :: "action list \<Rightarrow> room_controller \<Rightarrow> room_controller" where
  "run as s = fold step as s"

subsection \<open>The failures of the spec's taxonomy, as the code throws them\<close>

definition Unusable :: js_error where
  "Unusable = Error ''Room is no longer usable.''"

definition NotRunning :: js_error where
  "NotRunning = Error ''Room is not running.''"

definition AlreadyOpening :: js_error where
  "AlreadyOpening = Error ''Room is already being opened!''"

definition BrowserNotRunning :: js_error where
  "BrowserNotRunning = Error ''Browser is not running!''"

subsection \<open>Example sessions, pages and registries\<close>

text \<open>
  Concrete inputs that the theorems below are evaluated on: a controller as constructed
  for the page 0, the same while \<^verbatim>\<open>openRoom\<close> is in flight, the same after its page
  has closed, and with a room open.
\<close>

abbreviation idle_session :: room_controller where
  "idle_session \<equiv>
     \<lparr>id_rc = JStr ''room'', page = 0, usable = True, roomInfo = Null,
      openRoomLock = False, timeout = 15\<rparr>"

abbreviation opening_session :: room_controller where
  "opening_session \<equiv>
     \<lparr>id_rc = JStr ''room'', page = 0, usable = True, roomInfo = Null,
      openRoomLock = True, timeout = 15\<rparr>"

abbreviation opening_closed_session :: room_controller where
  "opening_closed_session \<equiv>
     \<lparr>id_rc = JStr ''room'', page = 0, usable = False, roomInfo = Null,
      openRoomLock = True, timeout = 15\<rparr>"

abbreviation closed_session :: room_controller where
  "closed_session \<equiv>
     \<lparr>id_rc = JStr ''room'', page = 0, usable = False, roomInfo = Null,
      openRoomLock = False, timeout = 15\<rparr>"

abbreviation running_session :: room_controller where
  "running_session \<equiv>
     \<lparr>id_rc = JStr ''room'', page = 0, usable = True,
      roomInfo = JObj [(''roomLink'', JStr ''https://www.haxball.com/play?c=abc'')],
      openRoomLock = False, timeout = 15\<rparr>"

text \<open>
  A page whose \<^verbatim>\<open>window.hroomie.callRoom\<close> knows \<^verbatim>\<open>getPlayerList\<close> (no players) and
  refuses every other function.
\<close>

abbreviation player_list_page :: "unit page_eval" where
  "player_list_page \<equiv>
     (\<lambda>f args r.
        if args = [JStr ''getPlayerList'']
        then (Inr (JObj [(''error'', JBool False), (''payload'', JObj [(''result'', JObj [])])]), r)
        else (Inr (JObj [(''error'', JBool True), (''payload'', JStr ''no such function'')]), r))"

text \<open>
  A plugin manager that has the plugin \<open>y\<close> loaded with the id 1 and can load nothing
  from its repositories; its state is the list of the configs set, with their plugin ids.
\<close>

abbreviation only_y_manager :: "(int \<times> jsval) list hhm_manager" where
  "only_y_manager \<equiv>
     \<lparr>getPluginId = (\<lambda>m name. if name = ''y'' then 1 else - 1),
      addPluginByName = (\<lambda>m name. (- 1, m)),
      manager_setPluginConfig = (\<lambda>m i c. m @ [(i, c)])\<rparr>"

text \<open>
  The registry that \<^verbatim>\<open>new Haxroomie()\<close> builds, and the controllers that
  \<^verbatim>\<open>initSession\<close> constructs on the page 7 for the identifiers \<^verbatim>\<open>room\<close> and
  \<^verbatim>\<open>__proto__\<close>.
\<close>

abbreviation fresh_registry :: haxroomie where
  "fresh_registry \<equiv>
     \<lparr>browser = None, roomSessions = \<lparr>own = [], proto = ObjectPrototype\<rparr>,
      viewport = JObj [(''width'', JNum 400), (''height'', JNum 500)],
      port = JNum 3066, noSandbox = JBool False, headless = JBool True,
      userDataDir = JStr ''/user-data-dir''\<rparr>"

abbreviation proto_controller :: room_controller where
  "proto_controller \<equiv>
     \<lparr>id_rc = JStr ''__proto__'', page = 7, usable = True, roomInfo = Null,
      openRoomLock = False, timeout = 15\<rparr>"

abbreviation registered_controller :: room_controller where
  "registered_controller \<equiv>
     \<lparr>id_rc = JStr ''room'', page = 7, usable = True, roomInfo = Null,
      openRoomLock = False, timeout = 15\<rparr>"

section \<open>Properties of a session\<close>

subsection \<open>Usability\<close>

lemma sync_calls_usable:
  "usable (fst (snd (openRoom_call calls thrown config s))) = usable s"
  "usable (fst (react cs s)) = usable s"
proof (induction calls thrown config s and cs s rule: openRoom_call_react.induct)
  case (1 calls thrown config s)
  then show ?case
    by (auto simp: openRoom_call.simps split: prod.splits option.splits)
next
  case (2 s)
  then show ?case by simp
next
  case (3 config calls thrown cs s)
  obtain res s1 out1 where o: "openRoom_call calls thrown config s = (res, s1, out1)"
    by (cases "openRoom_call calls thrown config s")
  obtain s2 out2 where r: "react cs s1 = (s2, out2)"
    by (cases "react cs s1")
  from 3(1) o have "usable s1 = usable s" by simp
  moreover from 3(2) [OF o [symmetric] refl] r have "usable s2 = usable s1" by simp
  ultimately show ?case using o r by simp
next
  case (4 cs s)
  obtain res out1 where o: "closeRoom_call s = (res, s, out1)"
    by (cases "usable s") (simp_all add: closeRoom_call_def)
  obtain s2 out2 where r: "react cs s = (s2, out2)"
    by (cases "react cs s")
  from 4 [OF o [symmetric] refl] r have "usable s2 = usable s"
    by simp
  with o r show ?case
    by simp
qed

lemma step_keeps_unusable:
  assumes "\<not> usable s"
  shows "\<not> usable (step a s)"
proof (cases a)
  case (Page_error e calls thrown)
  with assms sync_calls_usable(2) [of calls s] show ?thesis
    by (cases "react calls s") (auto simp: on_error_def split: option.splits)
next
  case (Page_close calls thrown)
  with assms sync_calls_usable(2) [of calls s] show ?thesis
    by (cases "react calls s") (auto simp: on_close_def split: option.splits)
next
  case (OpenRoom_call config calls thrown)
  with assms show ?thesis
    by (simp add: sync_calls_usable)
qed (use assms in \<open>simp_all add: on_pageerror_def on_console_def openRoom_resume_def
       closeRoom_call_def closeRoom_resume_def split: sum.splits option.splits\<close>)

lemma run_keeps_unusable: "\<not> usable s \<Longrightarrow> \<not> usable (run as s)"
  unfolding run_def by (induction as arbitrary: s) (simp_all add: step_keeps_unusable)

lemma handler_sets_unusable:
  "\<not> usable (step (Page_error e calls None) s)"
  "\<not> usable (step (Page_close calls None) s)"
  by (cases "react calls s"; simp add: on_error_def on_close_def)+

text \<open>
  While \<^verbatim>\<open>page-closed\<close> is delivered the field is still true: an \<^verbatim>\<open>openRoom\<close> called by
  a listener of that notification passes the usability check and reaches the
  RoomOpener, on a page that has closed.
\<close>

lemma page_closed_listener_sees_usable:
  "on_close [Call_openRoom (JObj []) [] None] None idle_session
     = (opening_closed_session,
        [Emit ''page-closed'' [], Emit ''open-room-start'' [PValue (JObj [])],
         RoomOpener_open (JObj [])])"
  by (simp add: on_close_def openRoom_call.simps)

text \<open>
  Claim C1, as the code has it. A RoomController is constructed with \<open>usable\<close> true. No
  handler and no operation, in any interleaving and whatever the listeners do, makes an
  unusable controller usable again. When the handler of the page's \<^verbatim>\<open>error\<close> (a crash)
  or \<^verbatim>\<open>close\<close> has run and its listeners have returned, \<open>usable\<close> is false, and it is
  false in every later state; there \<^verbatim>\<open>openRoom\<close>, \<^verbatim>\<open>closeRoom\<close> and \<^verbatim>\<open>callRoom\<close> refuse
  with the Unusable failure and do nothing. The session is not inert otherwise: an
  \<^verbatim>\<open>openRoom\<close> that was in flight completes on it as on any other.
\<close>

theorem usable_monotonic:
  "(RoomController_constructor opt = Inr s0 \<longrightarrow> usable s0)
   \<and> (\<not> usable s \<longrightarrow> \<not> usable (run as s))
   \<and> \<not> usable (run as (step (Page_error e calls None) s))
   \<and> \<not> usable (run as (step (Page_close calls None) s))
   \<and> (\<not> usable s \<longrightarrow>
        openRoom_call calls' thrown config s = (Inl Unusable, s, [])
        \<and> closeRoom_call s = (Inl Unusable, s, [])
        \<and> callRoom pg fn args s r = (Inl Unusable, r, []))
   \<and> openRoom_resume (Inr info) s
       = (Inr info, s\<lparr>roomInfo := info, openRoomLock := False\<rparr>,
          [Emit ''open-room-stop'' [PValue info]])"
proof -
  have c: "RoomController_constructor opt = Inr s0 \<longrightarrow> usable s0"
    by (auto simp: RoomController_constructor_def split: sum.splits prod.splits)
  have g: "\<not> usable s \<longrightarrow>
        openRoom_call calls' thrown config s = (Inl Unusable, s, [])
        \<and> closeRoom_call s = (Inl Unusable, s, [])
        \<and> callRoom pg fn args s r = (Inl Unusable, r, [])"
    by (simp add: openRoom_call.simps closeRoom_call_def callRoom_def Unusable_def)
  have f: "openRoom_resume (Inr info) s
       = (Inr info, s\<lparr>roomInfo := info, openRoomLock := False\<rparr>,
          [Emit ''open-room-stop'' [PValue info]])"
    by (simp add: openRoom_resume_def)
  have e: "\<not> usable (run as (step (Page_error e calls None) s))"
    using handler_sets_unusable(1) by (rule run_keeps_unusable)
  have cl: "\<not> usable (run as (step (Page_close calls None) s))"
    using handler_sets_unusable(2) by (rule run_keeps_unusable)
  have m: "\<not> usable s \<longrightarrow> \<not> usable (run as s)"
    by (simp add: run_keeps_unusable)
  from c m e cl g f show ?thesis
    by blast
qed

text \<open>
  The theorem at a controller for the page 0: it is usable when constructed, unusable
  once its page has closed, and stays so while a room is opened and closed.
\<close>

theorem usable_monotonic_witness:
  "RoomController_constructor (Some \<lparr>opt_id = JStr ''room'', opt_page = Some 0\<rparr>) = Inr idle_session
   \<and> usable idle_session
   \<and> \<not> usable (step (Page_close [] None) idle_session)
   \<and> \<not> usable (run [OpenRoom_call (JObj []) [] None, OpenRoom_resume (Inr (JObj [])),
                       CloseRoom_call]
                  (step (Page_close [] None) idle_session))
   \<and> openRoom_call [] None (JObj []) (step (Page_close [] None) idle_session)
       = (Inl Unusable, step (Page_close [] None) idle_session, [])
   \<and> closeRoom_call (step (Page_close [] None) idle_session)
       = (Inl Unusable, step (Page_close [] None) idle_session, [])"
proof -
  have c: "RoomController_constructor (Some \<lparr>opt_id = JStr ''room'', opt_page = Some 0\<rparr>)
             = Inr idle_session"
    by (simp add: RoomController_constructor_def validateArguments_def)
  have u: "\<not> usable (step (Page_close [] None) idle_session)"
    by (simp add: on_close_def)
  note t = usable_monotonic [where opt = "Some \<lparr>opt_id = JStr ''room'', opt_page = Some 0\<rparr>"
      and ?s0.0 = "idle_session" and s = "step (Page_close [] None) idle_session"
      and as = "[OpenRoom_call (JObj []) [] None, OpenRoom_resume (Inr (JObj [])), CloseRoom_call]"
      and calls' = "[]" and thrown = "None" and config = "JObj []" and e = "Error ''Crash''"
      and calls = "[]" and pg = "player_list_page" and fn = "Null" and args = "[]" and r = "()"
      and info = "Null"]
  from t c have 1: "usable idle_session"
    by blast
  from t u have 2: "\<not> usable (run [OpenRoom_call (JObj []) [] None,
      OpenRoom_resume (Inr (JObj [])), CloseRoom_call] (step (Page_close [] None) idle_session))"
    by blast
  from t u have 3: "openRoom_call [] None (JObj []) (step (Page_close [] None) idle_session)
       = (Inl Unusable, step (Page_close [] None) idle_session, [])"
    by blast
  from t u have 4: "closeRoom_call (step (Page_close [] None) idle_session)
       = (Inl Unusable, step (Page_close [] None) idle_session, [])"
    by blast
  from c 1 u 2 3 4 show ?thesis
    by blast
qed

text \<open>
  The claim as stated fails where it calls the session permanently inert. The page
  closes while \<^verbatim>\<open>openRoom\<close> is in flight; when the RoomOpener then succeeds, the unusable
  controller stores the room, is \<open>running\<close> and emits \<^verbatim>\<open>open-room-stop\<close>.
\<close>

theorem unusable_session_not_inert_counterexample:
  "run [OpenRoom_call (JObj []) [] None, Page_close [] None] idle_session = opening_closed_session
   \<and> \<not> usable opening_closed_session
   \<and> \<not> running opening_closed_session
   \<and> openRoom_resume (Inr (JObj [(''roomLink'', JStr ''https://www.haxball.com/play?c=abc'')]))
        opening_closed_session
       = (Inr (JObj [(''roomLink'', JStr ''https://www.haxball.com/play?c=abc'')]),
          running_session\<lparr>usable := False\<rparr>,
          [Emit ''open-room-stop''
             [PValue (JObj [(''roomLink'', JStr ''https://www.haxball.com/play?c=abc'')])]])
   \<and> running (running_session\<lparr>usable := False\<rparr>)"
  by (simp add: run_def openRoom_call.simps on_close_def openRoom_resume_def running_def)

subsection \<open>\<^verbatim>\<open>openRoom\<close>\<close>

text \<open>
  The lock is set after \<^verbatim>\<open>open-room-start\<close> has been delivered: an \<^verbatim>\<open>openRoom\<close> called by
  a listener of that notification passes both checks, and both calls reach the
  RoomOpener.
\<close>

lemma open_room_start_listener_reenters:
  "openRoom_call [Call_openRoom (JObj [(''token'', JStr ''U'')]) [] None] None
       (JObj [(''token'', JStr ''T'')]) idle_session
     = (Inr (), opening_session,
        [Emit ''open-room-start'' [PValue (JObj [(''token'', JStr ''T'')])],
         Emit ''open-room-start'' [PValue (JObj [(''token'', JStr ''U'')])],
         RoomOpener_open (JObj [(''token'', JStr ''U'')]),
         RoomOpener_open (JObj [(''token'', JStr ''T'')])])"
  by (simp add: openRoom_call.simps)

text \<open>
  Claim C2, as the code has it. While \<open>openRoomLock\<close> is held, a further \<^verbatim>\<open>openRoom\<close>
  throws at once, before it notifies anyone or reaches the RoomOpener, and changes
  nothing: with AlreadyOpening when the session is usable, with Unusable when the
  session has become unusable in the meantime (the usability check comes first).
\<close>

theorem openRoom_reentrant_rejected:
  "openRoomLock s \<longrightarrow>
     openRoom_call calls thrown config s
       = (Inl (if usable s then AlreadyOpening else Unusable), s, [])"
  by (simp add: openRoom_call.simps Unusable_def AlreadyOpening_def)

theorem openRoom_reentrant_rejected_witness:
  "openRoomLock opening_session \<and> usable opening_session
   \<and> openRoom_call [] None (JObj [(''token'', JStr ''U'')]) opening_session
       = (Inl AlreadyOpening, opening_session, [])
   \<and> openRoomLock opening_closed_session \<and> \<not> usable opening_closed_session
   \<and> openRoom_call [] None (JObj [(''token'', JStr ''U'')]) opening_closed_session
       = (Inl Unusable, opening_closed_session, [])"
proof -
  have 1: "openRoom_call [] None (JObj [(''token'', JStr ''U'')]) opening_session
             = (Inl AlreadyOpening, opening_session, [])"
    using openRoom_reentrant_rejected [of "opening_session" "[]" "None"
        "JObj [(''token'', JStr ''U'')]"]
    by simp
  have 2: "openRoom_call [] None (JObj [(''token'', JStr ''U'')]) opening_closed_session
             = (Inl Unusable, opening_closed_session, [])"
    using openRoom_reentrant_rejected [of "opening_closed_session" "[]" "None"
        "JObj [(''token'', JStr ''U'')]"]
    by simp
  from 1 2 show ?thesis
    by simp
qed

text \<open>
  The claim as stated fails on a session that a page can really reach: \<^verbatim>\<open>openRoom\<close> is
  in flight (the lock is held) and the page closes. The next \<^verbatim>\<open>openRoom\<close> fails with
  Unusable, not with AlreadyOpening.
\<close>

theorem openRoom_lock_held_unusable_counterexample:
  "RoomController_constructor (Some \<lparr>opt_id = JStr ''room'', opt_page = Some 0\<rparr>) = Inr idle_session
   \<and> openRoomLock (run [OpenRoom_call (JObj []) [] None, Page_close [] None] idle_session)
   \<and> fst (openRoom_call [] None (JObj [])
            (run [OpenRoom_call (JObj []) [] None, Page_close [] None] idle_session))
        = Inl Unusable
   \<and> Unusable \<noteq> AlreadyOpening"
  by (simp add: RoomController_constructor_def validateArguments_def run_def
        openRoom_call.simps on_close_def Unusable_def AlreadyOpening_def)

text \<open>
  Whatever ran while \<^verbatim>\<open>RoomOpener.open\<close> was pending, a rejection is handled in the
  same way when \<^verbatim>\<open>openRoom\<close> resumes.
\<close>

lemma openRoom_resume_failure:
  "openRoom_resume (Inl err) t =
     (Inr Undefined, t\<lparr>openRoomLock := False\<rparr>, [Emit ''open-room-error'' [PError err]])"
  by (simp add: openRoom_resume_def)



subsection \<open>\<^verbatim>\<open>closeRoom\<close>\<close>

text \<open>
  Claim C8. On a usable session, when \<^verbatim>\<open>RoomOpener.close()\<close> throws, \<^verbatim>\<open>closeRoom\<close>
  throws the same error and leaves the controller as it was: \<open>roomInfo\<close> (and so
  \<open>running\<close>) is unchanged and \<^verbatim>\<open>close-room\<close> is not emitted. This holds as well when
  other handlers ran before the rejection arrived (\<open>closeRoom_resume\<close> in any state).
  \<open>roomInfo\<close> is cleared and \<^verbatim>\<open>close-room\<close> emitted exactly when the session is usable
  and \<^verbatim>\<open>RoomOpener.close()\<close> succeeds.
\<close>

theorem closeRoom_failure_propagates:
  "(usable s \<longrightarrow> closeRoom (Some err) s = (Inl err, s, [RoomOpener_close]))
   \<and> closeRoom_resume (Some err) t = (Inl err, t, [])
   \<and> (usable s \<longrightarrow> closeRoom None s =
         (Inr Undefined, s\<lparr>roomInfo := Null\<rparr>, [RoomOpener_close, Emit ''close-room'' []]))
   \<and> (Emit ''close-room'' [] \<in> set (snd (snd (closeRoom closer s)))
        \<longleftrightarrow> usable s \<and> closer = None)
   \<and> (fst (snd (closeRoom closer s)) \<noteq> s \<longrightarrow> usable s \<and> closer = None)"
  by (auto simp: closeRoom_def closeRoom_call_def closeRoom_resume_def split: option.splits)

theorem closeRoom_failure_propagates_witness:
  "usable running_session
   \<and> closeRoom (Some (Error ''Target closed'')) running_session
       = (Inl (Error ''Target closed''), running_session, [RoomOpener_close])
   \<and> closeRoom None running_session = (Inr Undefined, idle_session, [RoomOpener_close, Emit ''close-room'' []])
   \<and> Emit ''close-room'' [] \<notin> set (snd (snd (closeRoom (Some (Error ''Target closed'')) running_session)))"
proof -
  have u: "usable running_session"
    by simp
  have 1: "closeRoom (Some (Error ''Target closed'')) running_session
       = (Inl (Error ''Target closed''), running_session, [RoomOpener_close])"
    using closeRoom_failure_propagates [of "running_session" "Error ''Target closed''"] u
    by blast
  have 2: "closeRoom None running_session = (Inr Undefined, idle_session, [RoomOpener_close, Emit ''close-room'' []])"
    using closeRoom_failure_propagates [of "running_session"] u
    by simp
  have 3: "Emit ''close-room'' [] \<notin> set (snd (snd (closeRoom (Some (Error ''Target closed'')) running_session)))"
    using closeRoom_failure_propagates [of "running_session" _ _ "Some (Error ''Target closed'')"]
    by simp
  from u 1 2 3 show ?thesis
    by blast
qed

subsection \<open>\<^verbatim>\<open>callRoom\<close>\<close>

text \<open>
  Claim C7. \<^verbatim>\<open>callRoom(fn, ...args)\<close> checks in this order, the first failing check
  deciding, and evaluates nothing in the page when one fails: Unusable when the session
  is not usable, NotRunning when no room is open, a missing-argument error when \<^verbatim>\<open>fn\<close>
  is missing (falsy). Otherwise it evaluates once in the page and unwraps the answer:
  when the envelope's \<^verbatim>\<open>error\<close> is set it throws an \<^verbatim>\<open>Error\<close> made from the payload
  (its message is the payload, when that is a string), and otherwise it returns
  \<^verbatim>\<open>payload.result\<close>. The envelope's flag is \<^verbatim>\<open>error\<close>: set where the spec writes
  \<^verbatim>\<open>ok: false\<close>.
\<close>

theorem callRoom_contract:
  "(\<not> usable s \<longrightarrow> callRoom pg fn args s r = (Inl Unusable, r, []))
   \<and> (usable s \<and> \<not> running s \<longrightarrow> callRoom pg fn args s r = (Inl NotRunning, r, []))
   \<and> (usable s \<and> running s \<and> \<not> truthy fn \<longrightarrow>
        callRoom pg fn args s r = (Inl (Error ''Missing required argument: fn''), r, []))
   \<and> (usable s \<and> running s \<and> truthy fn \<longrightarrow>
        snd (snd (callRoom pg fn args s r)) = [Evaluate Hroomie_callRoom (fn # args)])
   \<and> (usable s \<and> running s \<and> truthy fn \<and> pg Hroomie_callRoom (fn # args) r = (Inr env, r1)
        \<and> get env ''error'' = Inr e \<and> truthy e \<and> get env ''payload'' = Inr p \<longrightarrow>
        callRoom pg fn args s r = (Inl (new_Error p), r1, [Evaluate Hroomie_callRoom (fn # args)])
        \<and> (p = JStr m \<longrightarrow> new_Error p = Error m))
   \<and> (usable s \<and> running s \<and> truthy fn \<and> pg Hroomie_callRoom (fn # args) r = (Inr env, r1)
        \<and> get env ''error'' = Inr e \<and> \<not> truthy e \<and> get env ''payload'' = Inr p
        \<and> get p ''result'' = Inr v \<longrightarrow>
        callRoom pg fn args s r = (Inr v, r1, [Evaluate Hroomie_callRoom (fn # args)]))"
  by (auto simp: callRoom_def Unusable_def NotRunning_def unwrap_def bind_js_def new_Error_def
        split: prod.splits sum.splits)

text \<open>
  The theorem on a page that knows \<^verbatim>\<open>getPlayerList\<close> only: a session without a room, a
  missing name, a call that the page refuses, and a call that it answers.
\<close>

theorem callRoom_contract_witness:
  "callRoom player_list_page (JStr ''getPlayerList'') [] closed_session () = (Inl Unusable, (), [])
   \<and> callRoom player_list_page (JStr ''getPlayerList'') [] idle_session () = (Inl NotRunning, (), [])
   \<and> callRoom player_list_page (JStr []) [] running_session () = (Inl (Error ''Missing required argument: fn''), (), [])
   \<and> callRoom player_list_page (JStr ''kickPlayer'') [JNum 3] running_session ()
       = (Inl (Error ''no such function''), (),
          [Evaluate Hroomie_callRoom [JStr ''kickPlayer'', JNum 3]])
   \<and> callRoom player_list_page (JStr ''getPlayerList'') [] running_session ()
       = (Inr (JObj []), (), [Evaluate Hroomie_callRoom [JStr ''getPlayerList'']])"
proof -
  have 1: "callRoom player_list_page (JStr ''getPlayerList'') [] closed_session () = (Inl Unusable, (), [])"
    using callRoom_contract [of "closed_session" "player_list_page" "JStr ''getPlayerList''" "[]" "()"]
    by simp
  have 2: "callRoom player_list_page (JStr ''getPlayerList'') [] idle_session () = (Inl NotRunning, (), [])"
    using callRoom_contract [of "idle_session" "player_list_page" "JStr ''getPlayerList''" "[]" "()"]
    by (simp add: running_def)
  have 3: "callRoom player_list_page (JStr []) [] running_session ()
             = (Inl (Error ''Missing required argument: fn''), (), [])"
    using callRoom_contract [of "running_session" "player_list_page" "JStr []" "[]" "()"]
    by (simp add: running_def)
  have 4: "callRoom player_list_page (JStr ''kickPlayer'') [JNum 3] running_session ()
       = (Inl (Error ''no such function''), (),
          [Evaluate Hroomie_callRoom [JStr ''kickPlayer'', JNum 3]])"
    using callRoom_contract [of "running_session" "player_list_page" "JStr ''kickPlayer''" "[JNum 3]" "()"
        "JObj [(''error'', JBool True), (''payload'', JStr ''no such function'')]" "()"
        "JBool True" "JStr ''no such function''" "''no such function''"]
    by (simp add: running_def)
  have 5: "callRoom player_list_page (JStr ''getPlayerList'') [] running_session ()
       = (Inr (JObj []), (), [Evaluate Hroomie_callRoom [JStr ''getPlayerList'']])"
    using callRoom_contract [of "running_session" "player_list_page" "JStr ''getPlayerList''" "[]" "()"
        "JObj [(''error'', JBool False), (''payload'', JObj [(''result'', JObj [])])]" "()"
        "JBool False" "JObj [(''result'', JObj [])]" "[]" "JObj []"]
    by (simp add: running_def)
  from 1 2 3 4 5 show ?thesis
    by blast
qed

subsection \<open>The plugin operations\<close>

lemma plugin_operations_unusable:
  assumes "\<not> usable s"
  shows "getPlugins pg s r = (Inl Unusable, r, [])"
    and "getPlugin pg name s r = (Inl Unusable, r, [])"
    and "enablePlugin pg name s r = (Inl Unusable, r, [])"
    and "disablePlugin pg name s r = (Inl Unusable, r, [])"
    and "hasPlugin pg name s r = (Inl Unusable, r, [])"
    and "addPlugin pg plugin s r = (Inl Unusable, r, [])"
    and "getPluginsThatDependOn pg name s r = (Inl Unusable, r, [])"
    and "addRepository pg repository append_arg s r = (Inl Unusable, r, [])"
    and "getRepositories pg s r = (Inl Unusable, r, [])"
    and "clearRepositories pg s r = (Inl Unusable, r, [])"
    and "setPluginConfig pg pluginConfig pluginName s r = (Inl Unusable, r, [])"
  using assms
  by (simp_all add: Unusable_def getPlugins_def getPlugin_def enablePlugin_def disablePlugin_def
        hasPlugin_def addPlugin_def getPluginsThatDependOn_def addRepository_def
        getRepositories_def clearRepositories_def setPluginConfig_def)

lemma plugin_operations_not_running:
  assumes "usable s" and "\<not> running s"
  shows "getPlugins pg s r = (Inl NotRunning, r, [])"
    and "getPlugin pg name s r = (Inl NotRunning, r, [])"
    and "enablePlugin pg name s r = (Inl NotRunning, r, [])"
    and "disablePlugin pg name s r = (Inl NotRunning, r, [])"
    and "hasPlugin pg name s r = (Inl NotRunning, r, [])"
    and "addPlugin pg plugin s r = (Inl NotRunning, r, [])"
    and "getPluginsThatDependOn pg name s r = (Inl NotRunning, r, [])"
    and "addRepository pg repository append_arg s r = (Inl NotRunning, r, [])"
    and "getRepositories pg s r = (Inl NotRunning, r, [])"
    and "clearRepositories pg s r = (Inl NotRunning, r, [])"
    and "setPluginConfig pg pluginConfig pluginName s r = (Inl NotRunning, r, [])"
  using assms
  by (simp_all add: NotRunning_def getPlugins_def getPlugin_def enablePlugin_def disablePlugin_def
        hasPlugin_def addPlugin_def getPluginsThatDependOn_def addRepository_def
        getRepositories_def clearRepositories_def setPluginConfig_def)

lemma getPluginConfig_always_evaluates:
  "snd (snd (getPluginConfig pg pluginName s r)) \<noteq> []"
  by (simp add: getPluginConfig_def evaluate_def split: prod.splits)

text \<open>
  Claim C5. Eleven of the twelve plugin operations check \<open>usable\<close> and \<open>running\<close>
  before anything else (the two lemmas above). \<^verbatim>\<open>getPluginConfig\<close> has neither check: on
  a session that is unusable and has no room it still evaluates in the page, and what
  the caller sees is the page's answer, here the rejection of a page where the plugin
  manager does not exist.
\<close>

theorem getPluginConfig_unguarded:
  "getPluginConfig
      (\<lambda>f args r. (Inl (Error ''Evaluation failed: ReferenceError: HHM is not defined''), r))
      Undefined closed_session ()
   = (Inl (Error ''Evaluation failed: ReferenceError: HHM is not defined''), (),
      [Evaluate Get_plugin_config_all []])
  \<and> Error ''Evaluation failed: ReferenceError: HHM is not defined'' \<noteq> Unusable
  \<and> Error ''Evaluation failed: ReferenceError: HHM is not defined'' \<noteq> NotRunning"
  by (simp add: getPluginConfig_def evaluate_def Unusable_def NotRunning_def)

lemma setPluginConfig_entries_stop:
  assumes "setPluginConfig_entries pg before r = (Inr v, r1, out)"
    and "pg Set_plugin_config [JStr x, cx] r1 = (Inl e, r2)"
  shows "setPluginConfig_entries pg (before @ (x, cx) # later) r
           = (Inl e, r2, out @ [Evaluate Set_plugin_config [JStr x, cx]])"
  using assms
proof (induction before arbitrary: r v out)
  case Nil
  then show ?case by simp
next
  case (Cons a before)
  obtain n c where a: "a = (n, c)"
    by (cases a)
  from Cons.prems(1) a obtain w ra va outa where
    1: "pg Set_plugin_config [JStr n, c] r = (Inr w, ra)"
    and 2: "setPluginConfig_entries pg before ra = (Inr va, r1, outa)"
    and 3: "out = Evaluate Set_plugin_config [JStr n, c] # outa"
    by (auto split: prod.splits sum.splits)
  from Cons.IH [OF 2 Cons.prems(2)] 1 3 a show ?case
    by simp
qed

lemma page_setPluginConfig_unresolvable:
  assumes "getPluginId manager m x < 0" and "fst (addPluginByName manager m x) < 0"
  shows "hhm_page manager other Set_plugin_config [JStr x, cx] m
           = (Inl (cannot_load x), snd (addPluginByName manager m x))"
  using assms
  by (cases "addPluginByName manager m x") (simp add: hhm_page_def page_setPluginConfig_def)

text \<open>
  Claim C6, as the code has it. The unscoped \<^verbatim>\<open>setPluginConfig\<close> applies the entries
  one after the other. When the entries before \<open>x\<close> have been applied and \<open>x\<close> is
  neither loaded nor loadable from the repositories, the evaluation for \<open>x\<close> is
  rejected with the cannot-load error, that error leaves the loop and is thrown to the
  caller: what was applied before \<open>x\<close> stays applied, and no later entry is attempted.
\<close>

theorem setPluginConfig_stops_at_unresolvable:
  assumes "usable s" and "running s" and "typeof pluginName \<noteq> ''string''"
    and "setPluginConfig_entries (hhm_page manager other) before m = (Inr v, m1, out)"
    and "getPluginId manager m1 x < 0" and "fst (addPluginByName manager m1 x) < 0"
  shows "setPluginConfig (hhm_page manager other) (JObj (before @ (x, cx) # later)) pluginName s m
           = (Inl (cannot_load x), snd (addPluginByName manager m1 x),
              out @ [Evaluate Set_plugin_config [JStr x, cx]])"
proof -
  have "setPluginConfig_entries (hhm_page manager other) (before @ (x, cx) # later) m
          = (Inl (cannot_load x), snd (addPluginByName manager m1 x),
              out @ [Evaluate Set_plugin_config [JStr x, cx]])"
    using assms(4) page_setPluginConfig_unresolvable [OF assms(5,6)]
    by (rule setPluginConfig_entries_stop)
  with assms(1-3) show ?thesis
    by (simp add: setPluginConfig_def)
qed

text \<open>
  The theorem on a manager that has the plugin \<open>y\<close> loaded (id 1) and can load nothing
  else; its state is the list of the configs applied. Of \<open>y\<close>, \<open>x\<close>, \<open>z\<close> only
  \<open>y\<close> is configured.
\<close>

theorem setPluginConfig_stops_at_unresolvable_witness:
  "usable running_session \<and> running running_session \<and> typeof Undefined \<noteq> ''string''
   \<and> setPluginConfig (hhm_page only_y_manager (\<lambda>f args m. (Inr Undefined, m)))
       (JObj ([(''y'', JObj [(''a'', JNum 1)])] @ (''x'', JObj []) # [(''z'', JObj [])]))
       Undefined running_session []
     = (Inl (cannot_load ''x''), [(1, JObj [(''a'', JNum 1)])],
        [Evaluate Set_plugin_config [JStr ''y'', JObj [(''a'', JNum 1)]],
         Evaluate Set_plugin_config [JStr ''x'', JObj []]])"
proof -
  have u: "usable running_session"
    by simp
  have r: "running running_session"
    by (simp add: running_def)
  have t: "typeof Undefined \<noteq> ''string''"
    by simp
  have b: "setPluginConfig_entries (hhm_page only_y_manager (\<lambda>f args m. (Inr Undefined, m)))
             [(''y'', JObj [(''a'', JNum 1)])] []
           = (Inr Undefined, [(1, JObj [(''a'', JNum 1)])],
              [Evaluate Set_plugin_config [JStr ''y'', JObj [(''a'', JNum 1)]]])"
    by (simp add: hhm_page_def page_setPluginConfig_def)
  have g: "getPluginId only_y_manager [(1, JObj [(''a'', JNum 1)])] ''x'' < 0"
    by simp
  have a: "fst (addPluginByName only_y_manager [(1, JObj [(''a'', JNum 1)])] ''x'') < 0"
    by simp
  from setPluginConfig_stops_at_unresolvable [OF u r t b g a, of "JObj []" "[(''z'', JObj [])]"]
    u r t
  show ?thesis
    by simp
qed

text \<open>
  The claim as stated fails on the same manager: with the entries \<open>x\<close>, \<open>y\<close> the
  call throws at \<open>x\<close>, nothing is evaluated for \<open>y\<close> and the manager holds no config
  for it, although \<open>y\<close> alone is configured without error.
\<close>

theorem setPluginConfig_later_entry_counterexample:
  "setPluginConfig (hhm_page only_y_manager (\<lambda>f args m. (Inr Undefined, m)))
     (JObj [(''x'', JObj []), (''y'', JObj [(''a'', JNum 1)])]) Undefined running_session []
   = (Inl (cannot_load ''x''), [], [Evaluate Set_plugin_config [JStr ''x'', JObj []]])
  \<and> setPluginConfig (hhm_page only_y_manager (\<lambda>f args m. (Inr Undefined, m)))
     (JObj [(''y'', JObj [(''a'', JNum 1)])]) Undefined running_session []
   = (Inr Undefined, [(1, JObj [(''a'', JNum 1)])],
      [Evaluate Set_plugin_config [JStr ''y'', JObj [(''a'', JNum 1)]]])"
  by (simp add: setPluginConfig_def running_def hhm_page_def page_setPluginConfig_def)

section \<open>Properties of the registry\<close>

subsection \<open>The constructor\<close>

lemma or_else_default_port: "or_else p (JNum 3066) \<noteq> JNum 0"
  by (cases p) (simp_all add: or_else_def)

text \<open>
  Claim C10. For no options at all does the constructor throw \<^verbatim>\<open>INVALID_PORT: 0\<close>: the
  port is \<^verbatim>\<open>opt.port || 3066\<close>, which is never 0, so the test \<^verbatim>\<open>this.port === 0\<close> cannot
  succeed. With \<^verbatim>\<open>opt.port\<close> equal to 0 the registry is built with the port 3066 (unless
  the options object shadows \<^verbatim>\<open>hasOwnProperty\<close>, which fails later in the constructor
  with a TypeError).
\<close>

theorem constructor_port_zero_defaulted:
  "Haxroomie_constructor default_dir opt \<noteq> Inl (Error ''INVALID_PORT: 0'')
   \<and> (get opt ''port'' = Inr (JNum 0) \<longrightarrow>
        (case Haxroomie_constructor default_dir opt of
           Inr h \<Rightarrow> port h = JNum 3066
         | Inl e \<Rightarrow> e = TypeError ''opt.hasOwnProperty is not a function''))"
proof -
  have a: "Haxroomie_constructor default_dir opt \<noteq> Inl (Error ''INVALID_PORT: 0'')"
    by (cases opt)
       (auto simp: Haxroomie_constructor_def Let_def bind_js_def or_else_default_port or_else_def
          split: sum.splits if_splits)
  have b: "get opt ''port'' = Inr (JNum 0) \<longrightarrow>
        (case Haxroomie_constructor default_dir opt of
           Inr h \<Rightarrow> port h = JNum 3066
         | Inl e \<Rightarrow> e = TypeError ''opt.hasOwnProperty is not a function'')"
    by (cases opt)
       (auto simp: Haxroomie_constructor_def Let_def bind_js_def or_else_def
          split: sum.splits if_splits option.splits)
  from a b show ?thesis
    by blast
qed

theorem constructor_port_zero_defaulted_witness:
  "get (JObj [(''port'', JNum 0)]) ''port'' = Inr (JNum 0)
   \<and> (\<exists>h. Haxroomie_constructor ''/user-data-dir'' (JObj [(''port'', JNum 0)]) = Inr h
          \<and> port h = JNum 3066)"
proof -
  have g: "get (JObj [(''port'', JNum 0)]) ''port'' = Inr (JNum 0)"
    by simp
  have r: "\<exists>h. Haxroomie_constructor ''/user-data-dir'' (JObj [(''port'', JNum 0)]) = Inr h"
    by (simp add: Haxroomie_constructor_def Let_def bind_js_def or_else_def)
  from constructor_port_zero_defaulted [of "''/user-data-dir''" "JObj [(''port'', JNum 0)]"] g r
  show ?thesis
    by auto
qed

subsection \<open>\<^verbatim>\<open>createBrowser\<close>\<close>

lemma get_not_Error: "get v k \<noteq> Inl (Error m)"
  by (cases v) simp_all

lemma to_string_not_Error: "to_string v \<noteq> Inl (Error m)"
  by (cases v) simp_all

lemma initSession_not_BrowserNotRunning:
  "fst (initSession members emulate pg sid hs) = Inl BrowserNotRunning
     \<Longrightarrow> \<exists>p. emulate p = Some BrowserNotRunning"
  by (cases hs)
     (auto simp: initSession_def BrowserNotRunning_def bind_js_def RoomController_constructor_def
        validateArguments_def rs_set_def get_not_Error to_string_not_Error
        split: sum.splits option.splits if_splits prod.splits jsval.splits member.splits
          proto.splits)

text \<open>
  Claim C9. When a browser answers on the configured port, \<^verbatim>\<open>createBrowser\<close> fails with
  the \<^verbatim>\<open>BROWSER_RUNNING\<close> error, and the registry's \<open>browser\<close> field holds the handle
  that the probe attached to. A later \<^verbatim>\<open>getSession\<close> on that registry therefore passes
  its first check: it fails with \<^verbatim>\<open>Browser is not running!\<close> only if the browser itself
  rejects \<^verbatim>\<open>pages\<close>, \<^verbatim>\<open>newPage\<close> or \<^verbatim>\<open>emulate\<close> with that very error.
\<close>

theorem createBrowser_running_keeps_handle:
  assumes "connect = Inr b"
  shows "browser (snd (createBrowser connect launch h)) = Some b
    \<and> (to_string (port h) = Inr p \<longrightarrow>
         fst (createBrowser connect launch h) = Inl (Error (BROWSER_RUNNING p)))
    \<and> (fst (getSession members pages newPage emulate sid
              (snd (createBrowser connect launch h), heap)) = Inl BrowserNotRunning
        \<longrightarrow> pages = Inl BrowserNotRunning \<or> newPage = Inl BrowserNotRunning
            \<or> (\<exists>q. emulate q = Some BrowserNotRunning))"
proof -
  let ?h' = "snd (createBrowser connect launch h)"
  have b: "browser ?h' = Some b"
    using assms by (auto simp: createBrowser_def getRunningBrowser_def split: sum.splits)
  have e: "to_string (port h) = Inr p \<longrightarrow>
         fst (createBrowser connect launch h) = Inl (Error (BROWSER_RUNNING p))"
    using assms by (auto simp: createBrowser_def getRunningBrowser_def split: sum.splits)
  have g: "fst (getSession members pages newPage emulate sid (?h', heap)) = Inl BrowserNotRunning
        \<longrightarrow> pages = Inl BrowserNotRunning \<or> newPage = Inl BrowserNotRunning
            \<or> (\<exists>q. emulate q = Some BrowserNotRunning)"
    using b
    by (cases sid)
       (auto simp: getSession_def BrowserNotRunning_def to_string_not_Error
          dest!: initSession_not_BrowserNotRunning [unfolded BrowserNotRunning_def]
          split: sum.splits if_splits slot.splits)
  from b e g show ?thesis
    by blast
qed

text \<open>
  The theorem on a fresh registry with the default options, probing a port where the
  browser 5 answers.
\<close>

theorem createBrowser_running_keeps_handle_witness:
  "browser (snd (createBrowser (Inr 5) (Inr 6) fresh_registry)) = Some 5
   \<and> fst (createBrowser (Inr 5) (Inr 6) fresh_registry) = Inl (Error (BROWSER_RUNNING ''3066''))
   \<and> fst (getSession (\<lambda>r k. None) (Inr [7]) (Inr 8) (\<lambda>q. None) (JStr ''room'')
            (snd (createBrowser (Inr 5) (Inr 6) fresh_registry), []))
       \<noteq> Inl BrowserNotRunning"
proof -
  have p: "to_string (port fresh_registry) = Inr ''3066''"
    by (simp add: digits.simps)
  from createBrowser_running_keeps_handle
    [of "Inr 5" 5 "Inr 6" "fresh_registry" "''3066''" "\<lambda>r k. None" "Inr [7]" "Inr 8" "\<lambda>q. None"
        "JStr ''room''" "[]"] p
  show ?thesis
    by (simp add: BrowserNotRunning_def)
qed

subsection \<open>\<^verbatim>\<open>getSession\<close>\<close>

lemma map_of_overwrite:
  "map_of xs k \<noteq> None \<Longrightarrow>
   map_of (map (\<lambda>(k', r'). if k' = k then (k', r) else (k', r')) xs) k = Some r"
  by (induction xs) (auto split: if_splits)

lemma rs_set_registers:
  "k \<noteq> ''__proto__'' \<Longrightarrow> rs_set members rs k r = Inr rs' \<Longrightarrow>
     map_of (own rs') k = Some r \<and> own rs' \<noteq> []"
  by (auto simp: rs_set_def map_of_overwrite map_add_def
        split: if_splits option.splits member.splits proto.splits)

lemma rs_get_own: "map_of (own rs) k = Some r \<Longrightarrow> rs_get members rs k = Ctl r"
  by (simp add: rs_get_def)

lemma initSession_registers:
  assumes "to_string sid = Inr k" and "k \<noteq> ''__proto__''"
    and "initSession members emulate pg sid (h, heap) = (Inr v, (h1, heap1))"
  shows "map_of (own (roomSessions h1)) k = Some (length heap) \<and> own (roomSessions h1) \<noteq> []
    \<and> v = Undefined"
  using assms
  by (auto simp: initSession_def bind_js_def split: sum.splits option.splits
        dest: rs_set_registers)

lemma initSession_browser:
  "initSession members emulate pg sid (h, heap) = (res, (h1, heap1)) \<Longrightarrow> browser h1 = browser h"
  by (auto simp: initSession_def split: sum.splits option.splits)

text \<open>
  An identifier that is registered is found: nothing is asked of the browser, no
  controller is constructed, the registry stays as it is, and the value returned is
  \<^verbatim>\<open>undefined\<close>.
\<close>

lemma getSession_registered:
  assumes "to_string sid = Inr k" and "browser h \<noteq> None" and "truthy sid \<or> sid = JNum 0"
    and "map_of (own (roomSessions h)) k = Some r"
  shows "getSession members pages newPage emulate sid (h, heap) = (Inr Undefined, (h, heap))"
proof -
  from assms(4) have "own (roomSessions h) \<noteq> []"
    by auto
  with assms show ?thesis
    by (auto simp: getSession_def rs_get_own)
qed

text \<open>
  For every identifier whose property key is not \<^verbatim>\<open>__proto__\<close>: a call that has
  registered a controller is followed by calls that find it, whatever the browser would
  answer.
\<close>

lemma getSession_second_call:
  assumes k: "to_string sid = Inr k" "k \<noteq> ''__proto__''"
    and empty: "own (roomSessions h) = []"
    and first: "getSession members pages newPage emulate sid (h, heap) = (Inr v, (h1, heap1))"
  shows "getSession members' pages' newPage' emulate' sid (h1, heap1)
           = (Inr Undefined, (h1, heap1))"
proof -
  from first have br: "browser h \<noteq> None" and ok: "truthy sid \<or> sid = JNum 0"
    by (auto simp: getSession_def split: if_splits)
  from first empty br ok obtain pg where
    i: "initSession members emulate pg sid (h, heap) = (Inr v, (h1, heap1))"
    by (auto simp: getSession_def split: sum.splits)
  from initSession_registers [OF k i] initSession_browser [OF i] br k ok show ?thesis
    by (simp add: getSession_registered)
qed

text \<open>
  With the identifier \<^verbatim>\<open>__proto__\<close> on a fresh registry,
  \<^verbatim>\<open>this.roomSessions[sessionID] = room\<close> makes the controller the prototype of the
  dictionary instead of an entry of it; the dictionary still has no keys, so the second
  call constructs a second controller on the same page.
\<close>

lemma getSession_proto_key_second_controller:
  "getSession (\<lambda>r k. None) (Inr [7]) (Inr 8) (\<lambda>q. None) (JStr ''__proto__'')
       (fresh_registry\<lparr>browser := Some 0\<rparr>, [])
     = (Inr Undefined,
        (fresh_registry\<lparr>browser := Some 0,
           roomSessions := \<lparr>own = [], proto = ControllerProto 0\<rparr>\<rparr>,
         [proto_controller]))
   \<and> getSession (\<lambda>r k. None) (Inr [7]) (Inr 8) (\<lambda>q. None) (JStr ''__proto__'')
       (fresh_registry\<lparr>browser := Some 0,
           roomSessions := \<lparr>own = [], proto = ControllerProto 0\<rparr>\<rparr>,
         [proto_controller])
     = (Inr Undefined,
        (fresh_registry\<lparr>browser := Some 0,
           roomSessions := \<lparr>own = [], proto = ControllerProto 1\<rparr>\<rparr>,
         [proto_controller, proto_controller]))"
  by (simp add: getSession_def initSession_def bind_js_def RoomController_constructor_def
        validateArguments_def rs_set_def)

text \<open>
  Claim C4. \<^verbatim>\<open>getSession\<close> returns \<^verbatim>\<open>room.session\<close>, and a RoomController has no member
  of that name. On a fresh registry with a launched browser, the first call for the
  identifier \<^verbatim>\<open>room\<close> constructs and registers a controller and the second call finds
  it and leaves the registry as it is; both calls return \<^verbatim>\<open>undefined\<close>, so no session
  is handed out, neither the first time nor the second.
\<close>

theorem getSession_returns_undefined:
  "Haxroomie_constructor ''/user-data-dir'' Undefined = Inr fresh_registry
   \<and> createBrowser (Inl (Error ''connect ECONNREFUSED'')) (Inr 0) fresh_registry
       = (Inr 0, fresh_registry\<lparr>browser := Some 0\<rparr>)
   \<and> getSession (\<lambda>r k. None) (Inr [7]) (Inr 8) (\<lambda>q. None) (JStr ''room'')
       (fresh_registry\<lparr>browser := Some 0\<rparr>, [])
     = (Inr Undefined,
        (fresh_registry\<lparr>browser := Some 0,
           roomSessions := \<lparr>own = [(''room'', 0)], proto = ObjectPrototype\<rparr>\<rparr>,
         [registered_controller]))
   \<and> getSession (\<lambda>r k. None) (Inr [7]) (Inr 8) (\<lambda>q. None) (JStr ''room'')
       (fresh_registry\<lparr>browser := Some 0,
           roomSessions := \<lparr>own = [(''room'', 0)], proto = ObjectPrototype\<rparr>\<rparr>,
         [registered_controller])
     = (Inr Undefined,
        (fresh_registry\<lparr>browser := Some 0,
           roomSessions := \<lparr>own = [(''room'', 0)], proto = ObjectPrototype\<rparr>\<rparr>,
         [registered_controller]))"
  by (simp add: Haxroomie_constructor_def or_else_def createBrowser_def getRunningBrowser_def
        getSession_def initSession_def bind_js_def RoomController_constructor_def
        validateArguments_def rs_set_def rs_get_def)

end
